theory Spec2Isabelle
  imports
    Main
    "HOL-Library.Word"
    "HOL-Library.Char_ord"
    "HOL-Library.List_Lexorder"
    "HOL-Library.Multiset"
begin

section \<open>The app store routes of CasaOS-AppManagement (route/v2/appstore.go)\<close>

text \<open>
  The file holds the HTTP handlers of the app store: the registry of app store sources
  (list, register, unregister), the catalog listing with its three narrowing filters and
  the installed cross-reference, the retrieval of one compose app, and the category
  listing. Every handler reads its data through \<^verbatim>\<open>service.MyService\<close>, a
  process-wide singleton whose code lives in other packages. The embedding passes that
  singleton explicitly: a record of the collaborators' operations, and the state \<open>w\<close>
  they read and change.
\<close>

subsection \<open>Strings\<close>

text \<open>
  A Go string is a byte sequence; \<open>string\<close> is a list of 8-bit characters.
  \<^verbatim>\<open>strings.ToLower\<close> of Go's standard library maps every Unicode letter to its lower
  case. The handlers only ever compare two of its results, so it is taken as it is: a
  parameter, listed with the collaborators below. Two strings are equal up to letter case,
  for this file, when \<^verbatim>\<open>strings.ToLower\<close> gives the same string for both.
\<close>

text \<open>\<^verbatim>\<open>strings.Compare\<close>: the byte-wise lexicographic comparison, with result -1, 0 or 1.\<close>

fun strings_Compare :: "string \<Rightarrow> string \<Rightarrow> int" where
  "strings_Compare [] [] = 0"
| "strings_Compare [] (y # ys) = - 1"
| "strings_Compare (x # xs) [] = 1"
| "strings_Compare (x # xs) (y # ys) =
     (if (of_char x :: nat) < of_char y then - 1
      else if (of_char y :: nat) < of_char x then 1
      else strings_Compare xs ys)"

text \<open>The verb \<^verbatim>\<open>%d\<close> of \<^verbatim>\<open>fmt.Sprintf\<close>: an integer in decimal.\<close>

fun decimal :: "nat \<Rightarrow> string" where
  "decimal n =
     (if n < 10 then [char_of (48 + n)] else decimal (n div 10) @ [char_of (48 + n mod 10)])"

definition fmt_d :: "int \<Rightarrow> string" where
  "fmt_d i = (if i < 0 then CHR ''-'' # decimal (nat (- i)) else decimal (nat i))"

subsection \<open>Go maps and the helpers of samber/lo\<close>

text \<open>
  A Go map is modelled as the list of its entries in the order in which this run iterates
  over it. Go leaves that order open, so a statement about the code is a statement about
  every such list. \<^verbatim>\<open>lo.PickBy\<close>, \<^verbatim>\<open>lo.MapValues\<close> and \<^verbatim>\<open>lo.Values\<close> visit each
  entry once; \<^verbatim>\<open>lo.Map\<close> and \<^verbatim>\<open>lo.FilterMap\<close> hand the callback the element and its
  index.
\<close>

type_synonym ('k, 'v) go_map = "('k \<times> 'v) list"

definition lo_ContainsBy :: "'a list \<Rightarrow> ('a \<Rightarrow> bool) \<Rightarrow> bool" where
  "lo_ContainsBy collection predicate = list_ex predicate collection"

definition lo_Contains :: "'a list \<Rightarrow> 'a \<Rightarrow> bool" where
  "lo_Contains collection element = (element \<in> set collection)"

definition lo_PickBy :: "('k, 'v) go_map \<Rightarrow> ('k \<Rightarrow> 'v \<Rightarrow> bool) \<Rightarrow> ('k, 'v) go_map" where
  "lo_PickBy m predicate = filter (\<lambda>(k, v). predicate k v) m"

definition lo_MapValues :: "('k, 'v) go_map \<Rightarrow> ('v \<Rightarrow> 'k \<Rightarrow> 'r) \<Rightarrow> ('k, 'r) go_map" where
  "lo_MapValues m iteratee = map (\<lambda>(k, v). (k, iteratee v k)) m"

definition lo_Values :: "('k, 'v) go_map \<Rightarrow> 'v list" where
  "lo_Values m = map snd m"

definition lo_Map :: "'a list \<Rightarrow> ('a \<Rightarrow> nat \<Rightarrow> 'r) \<Rightarrow> 'r list" where
  "lo_Map collection iteratee = map (\<lambda>(i, x). iteratee x i) (enumerate 0 collection)"

definition lo_FilterMap :: "'a list \<Rightarrow> ('a \<Rightarrow> nat \<Rightarrow> 'r option) \<Rightarrow> 'r list" where
  "lo_FilterMap collection callback =
     List.map_filter (\<lambda>(i, x). callback x i) (enumerate 0 collection)"

text \<open>
  \<^verbatim>\<open>sort.Slice\<close> sorts in place by the given comparison and promises no stability.
  The model is insertion sort, which keeps elements that compare equal in their input order; since
  the input order (a map iteration) is arbitrary, the sorted outcomes of all input orders
  are all the outcomes an unstable sort can produce.
\<close>

fun insert_by :: "('a \<Rightarrow> 'a \<Rightarrow> bool) \<Rightarrow> 'a \<Rightarrow> 'a list \<Rightarrow> 'a list" where
  "insert_by lt x [] = [x]"
| "insert_by lt x (y # ys) = (if lt y x then y # insert_by lt x ys else x # y # ys)"

definition sort_Slice :: "('a \<Rightarrow> 'a \<Rightarrow> bool) \<Rightarrow> 'a list \<Rightarrow> 'a list" where
  "sort_Slice lt xs = foldr (insert_by lt) xs []"

subsection \<open>The data of package codegen that the handlers read and build\<close>

text \<open>
  Pointer fields are options (\<open>None\<close> is nil). Of each struct only the fields this file
  reads or writes are kept. Go's \<^verbatim>\<open>int\<close> is a 64-bit word where a value is added up
  (the category counts); an index into a slice is below its length and is kept as a
  number.
\<close>

record AppStoreMetadata =
  URL :: "string option"

record ComposeAppStoreInfo =
  Category :: string
  StoreAppID :: "string option"

text \<open>The zero value \<^verbatim>\<open>codegen.ComposeAppStoreInfo{}\<close>.\<close>

definition ComposeAppStoreInfo_zero :: ComposeAppStoreInfo where
  "ComposeAppStoreInfo_zero = \<lparr>Category = [], StoreAppID = None\<rparr>"

record ComposeAppStoreInfoLists =
  List :: "(string, ComposeAppStoreInfo) go_map"
  Installed :: "string list option"

record 'app ComposeAppWithStoreInfo =
  StoreInfo :: ComposeAppStoreInfo
  Compose :: 'app

record CategoryInfo =
  Name :: "string option"
  Font :: "string option"
  Description :: "string option"
  Count :: "64 word option"
  ID :: "int option"

record ComposeAppStoreInfoListParams =
  params_Category :: "string option"
  params_AuthorType :: "string option"
  params_Recommend :: "bool option"

text \<open>The response bodies, and what a handler writes: \<^verbatim>\<open>ctx.JSON\<close> or \<^verbatim>\<open>ctx.String\<close>
  with a status code. \<open>Panicked\<close> stands for a handler that dereferences nil and so
  never writes a response of its own.\<close>

datatype 'app body =
    ResponseBadRequest string
  | ResponseNotFound string
  | ResponseInternalServerError string
  | AppStoreListOK "AppStoreMetadata list"
  | AppStoreRegisterOK string
  | AppStoreUnregisterOK string
  | ComposeAppStoreInfoListsOK "string option" ComposeAppStoreInfoLists
  | ComposeAppOK string "'app ComposeAppWithStoreInfo"
  | CategoryListOK "CategoryInfo list"

datatype 'app response =
    JSON nat "'app body"
  | String nat string
  | Panicked

abbreviation StatusOK :: nat where "StatusOK \<equiv> 200"
abbreviation StatusBadRequest :: nat where "StatusBadRequest \<equiv> 400"
abbreviation StatusNotFound :: nat where "StatusNotFound \<equiv> 404"
abbreviation StatusInternalServerError :: nat where "StatusInternalServerError \<equiv> 500"

subsection \<open>The collaborators behind service.MyService\<close>

text \<open>
  None of these is defined in this file: each is a parameter. \<open>'app\<close> is
  \<^verbatim>\<open>*service.ComposeApp\<close>, \<open>'e\<close> is Go's \<^verbatim>\<open>error\<close> (with its method \<open>Error\<close> and
  the sentinel \<open>ErrNotAppStore\<close>, compared by \<open>=\<close>), \<open>'w\<close> is the state behind the
  services. A call that returns \<^verbatim>\<open>(value, error)\<close> is a sum, \<open>Inl\<close> the error; the
  value of a successful call is not nil, as the handlers assume when they dereference it.
  The two operations that change the registry return the new state. The constants of the
  packages codegen, common and config are parameters as well: the three known author
  types, the YAML media type, and the path of the log file that the register message
  quotes (\<^verbatim>\<open>filepath.Join\<close> of the configured log directory and file name). The last
  field is \<^verbatim>\<open>strings.ToLower\<close>.
\<close>

record ('app, 'e, 'w) service =
  Error :: "'e \<Rightarrow> string"
  ErrNotAppStore :: 'e
  AppStoreManagement_AppStoreList :: "'w \<Rightarrow> AppStoreMetadata list"
  AppStoreManagement_RegisterAppStore :: "string \<Rightarrow> 'w \<Rightarrow> 'e option \<times> 'w"
  AppStoreManagement_UnregisterAppStore :: "nat \<Rightarrow> 'w \<Rightarrow> 'e option \<times> 'w"
  AppStoreManagement_CategoryMap :: "'w \<Rightarrow> 'e + (string, CategoryInfo) go_map"
  V2AppStore_Catalog :: "'w \<Rightarrow> 'e + (string, 'app) go_map"
  V2AppStore_Recommend :: "'w \<Rightarrow> 'e + string list"
  V2AppStore_ComposeApp :: "string \<Rightarrow> 'w \<Rightarrow> 'e + 'app option"
  Compose_List :: "'w \<Rightarrow> 'e + (string, 'app) go_map"
  ComposeApp_StoreInfo :: "'app \<Rightarrow> bool \<Rightarrow> 'e + ComposeAppStoreInfo"
  ComposeApp_AuthorType :: "'app \<Rightarrow> string"
  yaml_Marshal :: "'app \<Rightarrow> 'e + string"
  Official :: string
  ByCasaos :: string
  Community :: string
  MIMEApplicationYAML :: string
  logFilepath :: string
  strings_ToLower :: "string \<Rightarrow> string"

subsection \<open>The registry handlers\<close>

definition AppStoreList :: "('app, 'e, 'w) service \<Rightarrow> 'w \<Rightarrow> 'app response" where
  "AppStoreList svc w = JSON StatusOK (AppStoreListOK (AppStoreManagement_AppStoreList svc w))"

definition RegisterAppStore ::
  "('app, 'e, 'w) service \<Rightarrow> string option \<Rightarrow> 'w \<Rightarrow> 'app response \<times> 'w" where
  "RegisterAppStore svc params_Url w =
     (case params_Url of
        None \<Rightarrow> (JSON StatusBadRequest (ResponseBadRequest ''appstore url is required''), w)
      | Some url \<Rightarrow>
          if url = [] then
            (JSON StatusBadRequest (ResponseBadRequest ''appstore url is required''), w)
          else
            let isExist = lo_ContainsBy (AppStoreManagement_AppStoreList svc w)
                  (\<lambda>appstore. case URL appstore of
                       None \<Rightarrow> False
                     | Some u \<Rightarrow> strings_ToLower svc u = strings_ToLower svc url)
            in if isExist then
                 (JSON StatusOK (AppStoreRegisterOK ''appstore is already registered''), w)
               else
                 (case AppStoreManagement_RegisterAppStore svc url w of
                    (Some err, w') \<Rightarrow>
                      if err = ErrNotAppStore svc then
                        (JSON StatusBadRequest (ResponseBadRequest (Error svc err)), w')
                      else
                        (JSON StatusInternalServerError
                           (ResponseInternalServerError (Error svc err)), w')
                  | (None, w') \<Rightarrow>
                      (JSON StatusOK
                         (AppStoreRegisterOK
                            (''trying to register app store asynchronously - see ''
                               @ logFilepath svc @ '' for any errors.'')), w')))"

text \<open>
  The registry holds a URL up to letter case: what \<open>isExist\<close> tests in
  \<^verbatim>\<open>RegisterAppStore\<close>, written with the elements of the list.
\<close>

abbreviation registered :: "('app, 'e, 'w) service \<Rightarrow> 'w \<Rightarrow> string \<Rightarrow> bool" where
  "registered svc w url \<equiv>
     (\<exists>appstore \<in> set (AppStoreManagement_AppStoreList svc w).
        \<exists>u. URL appstore = Some u \<and> strings_ToLower svc u = strings_ToLower svc url)"

definition UnregisterAppStore ::
  "('app, 'e, 'w) service \<Rightarrow> int \<Rightarrow> 'w \<Rightarrow> 'app response \<times> 'w" where
  "UnregisterAppStore svc ident w =
     (let appStoreList = AppStoreManagement_AppStoreList svc w in
      if ident < 0 \<or> ident \<ge> int (length appStoreList) then
        (JSON StatusNotFound
           (ResponseNotFound (''app store id '' @ fmt_d ident @ '' is not found'')), w)
      else if length appStoreList = 1 then
        (JSON StatusBadRequest
           (ResponseBadRequest
              ''cannot unregister the last app store - need at least one app store''), w)
      else
        (case AppStoreManagement_UnregisterAppStore svc (nat ident) w of
           (Some err, w') \<Rightarrow>
             (JSON StatusInternalServerError (ResponseInternalServerError (Error svc err)), w')
         | (None, w') \<Rightarrow>
             (JSON StatusOK (AppStoreUnregisterOK ''app store is unregistered.''), w')))"

subsection \<open>The catalog filters\<close>

definition FilterCatalogByCategory ::
  "('app, 'e, 'w) service \<Rightarrow> (string, 'app) go_map \<Rightarrow> string \<Rightarrow> (string, 'app) go_map" where
  "FilterCatalogByCategory svc catalog category =
     (if category = [] then catalog
      else lo_PickBy catalog (\<lambda>storeAppID composeApp.
             case ComposeApp_StoreInfo svc composeApp True of
               Inl err \<Rightarrow> False
             | Inr storeInfo \<Rightarrow>
                 strings_ToLower svc (Category storeInfo) = strings_ToLower svc category))"

definition FilterCatalogByAuthorType ::
  "('app, 'e, 'w) service \<Rightarrow> (string, 'app) go_map \<Rightarrow> string \<Rightarrow> (string, 'app) go_map" where
  "FilterCatalogByAuthorType svc catalog authorType =
     (if \<not> lo_Contains [Official svc, ByCasaos svc, Community svc] authorType then []
      else lo_PickBy catalog (\<lambda>storeAppID composeApp.
             ComposeApp_AuthorType svc composeApp = authorType))"

definition FilterCatalogByAppStoreID ::
  "(string, 'app) go_map \<Rightarrow> string list \<Rightarrow> (string, 'app) go_map" where
  "FilterCatalogByAppStoreID catalog appStoreIDs =
     lo_PickBy catalog (\<lambda>storeAppID composeApp. lo_Contains appStoreIDs storeAppID)"

subsection \<open>The catalog listing\<close>

text \<open>
  \<^verbatim>\<open>ComposeAppStoreInfoList\<close> is one function in the source. Its blocks get names
  here so that statements can speak of them: the category and author type filters applied
  to the fetched catalog (source lines 95 to 102), the recommend filter after them (lines
  104 to 114, which end the request when the recommend list cannot be fetched), the store
  info listing (lines 117 to 125) and the identifiers of the installed apps (lines 142 to
  154).
\<close>

definition narrowed_catalog ::
  "('app, 'e, 'w) service \<Rightarrow> ComposeAppStoreInfoListParams \<Rightarrow> (string, 'app) go_map
     \<Rightarrow> (string, 'app) go_map" where
  "narrowed_catalog svc params catalog =
     (let catalog =
            (case params_Category params of
               None \<Rightarrow> catalog
             | Some category \<Rightarrow> FilterCatalogByCategory svc catalog category)
      in case params_AuthorType params of
           None \<Rightarrow> catalog
         | Some a \<Rightarrow>
             let authorType = strings_ToLower svc a
             in FilterCatalogByAuthorType svc catalog authorType)"

definition filtered_catalog ::
  "('app, 'e, 'w) service \<Rightarrow> ComposeAppStoreInfoListParams \<Rightarrow> 'w \<Rightarrow> (string, 'app) go_map
     \<Rightarrow> 'e + (string, 'app) go_map" where
  "filtered_catalog svc params w catalog =
     (let catalog = narrowed_catalog svc params catalog
      in if params_Recommend params = Some True then
           (case V2AppStore_Recommend svc w of
              Inl err \<Rightarrow> Inl err
            | Inr recommendedList \<Rightarrow> Inr (FilterCatalogByAppStoreID catalog recommendedList))
         else Inr catalog)"

definition store_info_list ::
  "('app, 'e, 'w) service \<Rightarrow> (string, 'app) go_map \<Rightarrow> (string, ComposeAppStoreInfo) go_map" where
  "store_info_list svc catalog =
     lo_MapValues catalog (\<lambda>composeApp appStoreID.
       case ComposeApp_StoreInfo svc composeApp True of
         Inl err \<Rightarrow> ComposeAppStoreInfo_zero
       | Inr storeInfo \<Rightarrow> storeInfo)"

definition installed_ids ::
  "('app, 'e, 'w) service \<Rightarrow> (string, 'app) go_map \<Rightarrow> string list" where
  "installed_ids svc installedComposeApps =
     lo_FilterMap (lo_Values installedComposeApps) (\<lambda>composeApp i.
       case ComposeApp_StoreInfo svc composeApp False of
         Inl err \<Rightarrow> None
       | Inr storeInfo \<Rightarrow>
           (case StoreAppID storeInfo of
              None \<Rightarrow> None
            | Some storeAppID \<Rightarrow> Some storeAppID))"

definition ComposeAppStoreInfoList ::
  "('app, 'e, 'w) service \<Rightarrow> ComposeAppStoreInfoListParams \<Rightarrow> 'w \<Rightarrow> 'app response" where
  "ComposeAppStoreInfoList svc params w =
     (case V2AppStore_Catalog svc w of
        Inl err \<Rightarrow> JSON StatusInternalServerError (ResponseInternalServerError (Error svc err))
      | Inr catalog \<Rightarrow>
          (case filtered_catalog svc params w catalog of
             Inl err \<Rightarrow>
               JSON StatusInternalServerError (ResponseInternalServerError (Error svc err))
           | Inr catalog \<Rightarrow>
               let list = store_info_list svc catalog;
                   data = \<lparr>List = list, Installed = None\<rparr>
               in (case Compose_List svc w of
                     Inl err \<Rightarrow>
                       JSON StatusOK (ComposeAppStoreInfoListsOK (Some (Error svc err)) data)
                   | Inr installedComposeApps \<Rightarrow>
                       let installed = installed_ids svc installedComposeApps
                       in JSON StatusOK
                            (ComposeAppStoreInfoListsOK None
                               (data\<lparr>Installed := Some installed\<rparr>)))))"

subsection \<open>One compose app\<close>

definition ComposeApp ::
  "('app, 'e, 'w) service \<Rightarrow> string \<Rightarrow> string \<Rightarrow> 'w \<Rightarrow> 'app response" where
  "ComposeApp svc ident accept w =
     (case V2AppStore_ComposeApp svc ident w of
        Inl err \<Rightarrow> JSON StatusInternalServerError (ResponseInternalServerError (Error svc err))
      | Inr None \<Rightarrow> JSON StatusNotFound (ResponseNotFound ''app not found'')
      | Inr (Some composeApp) \<Rightarrow>
          if accept = MIMEApplicationYAML svc then
            (case yaml_Marshal svc composeApp of
               Inl err \<Rightarrow>
                 JSON StatusInternalServerError (ResponseInternalServerError (Error svc err))
             | Inr yaml \<Rightarrow> String StatusOK yaml)
          else
            (case ComposeApp_StoreInfo svc composeApp False of
               Inl err \<Rightarrow>
                 JSON StatusInternalServerError (ResponseInternalServerError (Error svc err))
             | Inr storeInfo \<Rightarrow>
                 JSON StatusOK
                   (ComposeAppOK
                      (''!! JSON format is for debugging purpose only - use `Accept: ''
                         @ MIMEApplicationYAML svc
                         @ ''` HTTP header to get YAML instead !!'')
                      \<lparr>StoreInfo = storeInfo, Compose = composeApp\<rparr>)))"

subsection \<open>The category listing\<close>

text \<open>
  The comparison handed to \<^verbatim>\<open>sort.Slice\<close> dereferences the \<open>Name\<close> of both elements. A
  sort of two or more elements compares every element at least once, so a category with
  no name makes the handler panic exactly when the list has two or more elements; a list
  of one element is never compared. In the branch that sorts, every name is present.
\<close>

definition name_less :: "CategoryInfo \<Rightarrow> CategoryInfo \<Rightarrow> bool" where
  "name_less a b =
     (case (Name a, Name b) of
        (Some x, Some y) \<Rightarrow> strings_Compare x y < 0
      | _ \<Rightarrow> False)"

text \<open>
  The order that the sort establishes with this comparison: \<open>a\<close> may stand before \<open>b\<close> when
  both are named and \<^verbatim>\<open>strings.Compare\<close> of their names is not positive.
\<close>

definition name_le :: "CategoryInfo \<Rightarrow> CategoryInfo \<Rightarrow> bool" where
  "name_le a b \<longleftrightarrow>
     (\<exists>x y. Name a = Some x \<and> Name b = Some y \<and> strings_Compare x y \<le> 0)"

definition CategoryList :: "('app, 'e, 'w) service \<Rightarrow> 'w \<Rightarrow> 'app response" where
  "CategoryList svc w =
     (case AppStoreManagement_CategoryMap svc w of
        Inl err \<Rightarrow> JSON StatusInternalServerError (ResponseInternalServerError (Error svc err))
      | Inr categoryMap \<Rightarrow>
          let categoryList = lo_Values categoryMap in
          if 2 \<le> length categoryList \<and> list_ex (\<lambda>c. Name c = None) categoryList then Panicked
          else
            let categoryList = sort_Slice name_less categoryList;
                totalCount =
                  fold (\<lambda>category totalCount.
                          case Count category of
                            None \<Rightarrow> totalCount
                          | Some n \<Rightarrow> totalCount + n) categoryList 0;
                categoryList =
                  \<lparr>Name = Some ''All'', Font = Some ''apps'', Description = Some ''All apps'',
                   Count = Some totalCount, ID = None\<rparr> # categoryList;
                categoryList =
                  lo_Map categoryList (\<lambda>category i. category\<lparr>ID := Some (int i)\<rparr>)
            in JSON StatusOK (CategoryListOK categoryList))"

subsection \<open>An in-memory service\<close>

text \<open>
  A concrete service for running the handlers: its state holds the registered stores and
  what each fetch returns; a compose app is its store info (or none, when the projection
  fails) and its author type; errors are their messages.
\<close>

text \<open>
  Its \<^verbatim>\<open>strings.ToLower\<close> is the one of ASCII text: the bytes \<open>A\<close> to \<open>Z\<close> become \<open>a\<close> to
  \<open>z\<close>, every other byte stays. All strings of the runs below are ASCII.
\<close>

definition to_lower_byte :: "char \<Rightarrow> char" where
  "to_lower_byte c =
     (let n = (of_char c :: nat) in if 65 \<le> n \<and> n \<le> 90 then char_of (n + 32) else c)"

definition ascii_ToLower :: "string \<Rightarrow> string" where
  "ascii_ToLower s = map to_lower_byte s"

record 'app test_world =
  world_stores :: "AppStoreMetadata list"
  world_categories :: "string + (string, CategoryInfo) go_map"
  world_catalog :: "string + (string, 'app) go_map"
  world_recommended :: "string + string list"
  world_installed :: "string + (string, 'app) go_map"

type_synonym test_app = "ComposeAppStoreInfo option \<times> string"

definition test_service :: "(test_app, string, test_app test_world) service" where
  "test_service =
     \<lparr>Error = (\<lambda>err. err),
      ErrNotAppStore = ''not an app store'',
      AppStoreManagement_AppStoreList = world_stores,
      AppStoreManagement_RegisterAppStore =
        (\<lambda>url w. (None, w\<lparr>world_stores := world_stores w @ [\<lparr>URL = Some url\<rparr>]\<rparr>)),
      AppStoreManagement_UnregisterAppStore =
        (\<lambda>i w. (None, w\<lparr>world_stores := take i (world_stores w) @ drop (Suc i) (world_stores w)\<rparr>)),
      AppStoreManagement_CategoryMap = world_categories,
      V2AppStore_Catalog = world_catalog,
      V2AppStore_Recommend = world_recommended,
      V2AppStore_ComposeApp =
        (\<lambda>ident w. case world_catalog w of Inl err \<Rightarrow> Inl err | Inr c \<Rightarrow> Inr (map_of c ident)),
      Compose_List = world_installed,
      ComposeApp_StoreInfo =
        (\<lambda>app includeApps. case fst app of
             None \<Rightarrow> Inl ''extension x-casaos not found''
           | Some storeInfo \<Rightarrow> Inr storeInfo),
      ComposeApp_AuthorType = snd,
      yaml_Marshal = (\<lambda>app. Inr (''x-casaos: '' @ snd app)),
      Official = ''official'',
      ByCasaos = ''by_casaos'',
      Community = ''community'',
      MIMEApplicationYAML = ''application/yaml'',
      logFilepath = ''/var/log/casaos/app-management.log'',
      strings_ToLower = ascii_ToLower\<rparr>"

definition app_x :: test_app where
  "app_x = (Some \<lparr>Category = ''Media'', StoreAppID = Some ''x''\<rparr>, ''official'')"

definition app_y :: test_app where
  "app_y = (Some \<lparr>Category = ''Media'', StoreAppID = Some ''y''\<rparr>, ''community'')"

definition app_z :: test_app where
  "app_z = (None, ''official'')"

definition app_t :: test_app where
  "app_t = (Some \<lparr>Category = ''Tools'', StoreAppID = Some ''t''\<rparr>, ''community'')"

definition app_u :: test_app where
  "app_u = (Some \<lparr>Category = ''MEDIA'', StoreAppID = None\<rparr>, ''by_casaos'')"

definition category_A :: CategoryInfo where
  "category_A = \<lparr>Name = Some ''A'', Font = Some ''a'', Description = Some ''Category A'',
                 Count = Some 2, ID = None\<rparr>"

definition category_B :: CategoryInfo where
  "category_B = \<lparr>Name = Some ''B'', Font = Some ''b'', Description = None,
                 Count = Some 3, ID = None\<rparr>"

definition category_unnamed :: CategoryInfo where
  "category_unnamed = \<lparr>Name = None, Font = None, Description = None,
                       Count = Some 1, ID = None\<rparr>"

definition test_world :: "test_app test_world" where
  "test_world =
     \<lparr>world_stores = [\<lparr>URL = Some ''http://Example.com/store''\<rparr>],
      world_categories = Inr [(''B'', category_B), (''A'', category_A)],
      world_catalog = Inr [(''x'', app_x), (''y'', app_y), (''z'', app_z)],
      world_recommended = Inr [''y''],
      world_installed = Inr [(''broken'', app_z), (''my-x'', app_x)]\<rparr>"

definition no_params :: ComposeAppStoreInfoListParams where
  "no_params = \<lparr>params_Category = None, params_AuthorType = None, params_Recommend = None\<rparr>"

subsection \<open>Facts about the helpers\<close>

lemma lo_PickBy_commute: "lo_PickBy (lo_PickBy m p) q = lo_PickBy (lo_PickBy m q) p"
  by (auto simp: lo_PickBy_def intro: filter_cong)

lemma lo_PickBy_Nil: "lo_PickBy [] p = []"
  by (simp add: lo_PickBy_def)

lemma set_lo_PickBy: "set (lo_PickBy m p) = {(k, v). (k, v) \<in> set m \<and> p k v}"
  by (auto simp: lo_PickBy_def)

lemma lo_PickBy_append: "lo_PickBy (xs @ ys) p = lo_PickBy xs p @ lo_PickBy ys p"
  by (simp add: lo_PickBy_def)

lemma map_filter_enumerate:
  "List.map_filter (\<lambda>(i, x). g x) (enumerate n xs) = List.map_filter g xs"
  by (induction xs arbitrary: n) (simp_all split: option.split)

lemma lo_FilterMap_no_index: "lo_FilterMap xs (\<lambda>x i. g x) = List.map_filter g xs"
  by (simp add: lo_FilterMap_def map_filter_enumerate)

lemma length_lo_Map: "length (lo_Map xs f) = length xs"
  by (simp add: lo_Map_def)

lemma nth_lo_Map: "i < length xs \<Longrightarrow> lo_Map xs f ! i = f (xs ! i) i"
  by (simp add: lo_Map_def nth_enumerate_eq)

lemma FilterCatalogByAuthorType_unknown:
  "authorType \<notin> {Official svc, ByCasaos svc, Community svc}
   \<Longrightarrow> FilterCatalogByAuthorType svc catalog authorType = []"
  by (simp add: FilterCatalogByAuthorType_def lo_Contains_def)

lemma FilterCatalogByAppStoreID_Nil: "FilterCatalogByAppStoreID [] ids = []"
  by (simp add: FilterCatalogByAppStoreID_def lo_PickBy_def)

lemma store_info_list_Nil: "store_info_list svc [] = []"
  by (simp add: store_info_list_def lo_MapValues_def)

lemma test_service_simps:
  "Error test_service = (\<lambda>err. err)"
  "AppStoreManagement_AppStoreList test_service = world_stores"
  "AppStoreManagement_CategoryMap test_service = world_categories"
  "V2AppStore_Catalog test_service = world_catalog"
  "V2AppStore_Recommend test_service = world_recommended"
  "Compose_List test_service = world_installed"
  "ComposeApp_AuthorType test_service = snd"
  "Official test_service = ''official''"
  "ByCasaos test_service = ''by_casaos''"
  "Community test_service = ''community''"
  "MIMEApplicationYAML test_service = ''application/yaml''"
  "strings_ToLower test_service = ascii_ToLower"
  by (simp_all add: test_service_def)

lemma test_service_StoreInfo:
  "ComposeApp_StoreInfo test_service app b =
     (case fst app of None \<Rightarrow> Inl ''extension x-casaos not found'' | Some storeInfo \<Rightarrow> Inr storeInfo)"
  by (simp add: test_service_def)

lemma test_world_simps:
  "world_stores test_world = [\<lparr>URL = Some ''http://Example.com/store''\<rparr>]"
  "world_categories test_world = Inr [(''B'', category_B), (''A'', category_A)]"
  "world_catalog test_world = Inr [(''x'', app_x), (''y'', app_y), (''z'', app_z)]"
  "world_recommended test_world = Inr [''y'']"
  "world_installed test_world = Inr [(''broken'', app_z), (''my-x'', app_x)]"
  by (simp_all add: test_world_def)

subsection \<open>Sorting by name\<close>

lemma strings_Compare_less: "strings_Compare a b < 0 \<longleftrightarrow> a < b"
  by (induction a b rule: strings_Compare.induct) (auto simp: less_char_def)

lemma strings_Compare_le: "strings_Compare a b \<le> 0 \<longleftrightarrow> a \<le> b"
  by (induction a b rule: strings_Compare.induct) (auto simp: less_char_def)

lemma mset_insert_by: "mset (insert_by lt x ys) = add_mset x (mset ys)"
  by (induction ys) simp_all

lemma mset_sort_Slice: "mset (sort_Slice lt xs) = mset xs"
  by (induction xs) (simp_all add: sort_Slice_def mset_insert_by)

lemma set_insert_by: "set (insert_by lt x ys) = insert x (set ys)"
  using mset_insert_by [of lt x ys] by (metis set_mset_add_mset_insert set_mset_mset)

lemma set_sort_Slice: "set (sort_Slice lt xs) = set xs"
  using mset_sort_Slice [of lt xs] by (metis set_mset_mset)

lemma length_sort_Slice: "length (sort_Slice lt xs) = length xs"
  using mset_sort_Slice [of lt xs] by (metis size_mset)


lemma sorted_insert_by_name:
  assumes "Name c \<noteq> None" and "\<forall>d \<in> set ys. Name d \<noteq> None"
    and "sorted_wrt name_le ys"
  shows "sorted_wrt name_le (insert_by name_less c ys)"
  using assms
proof (induction ys)
  case Nil
  then show ?case by simp
next
  case (Cons y ys)
  from Cons.prems obtain x' y' where n: "Name c = Some x'" "Name y = Some y'"
    by auto
  show ?case
  proof (cases "name_less y c")
    case True
    then have "y' < x'"
      using n by (simp add: name_less_def strings_Compare_less)
    then have "name_le y c"
      using n by (simp add: name_le_def strings_Compare_le)
    with True Cons show ?thesis
      by (simp add: set_insert_by)
  next
    case False
    then have le: "x' \<le> y'"
      using n by (simp add: name_less_def strings_Compare_less)
    have "name_le c d" if "d \<in> set ys" for d
    proof -
      from that Cons.prems(3) have "name_le y d"
        by simp
      then obtain z where "Name d = Some z" "y' \<le> z"
        using n by (auto simp: name_le_def strings_Compare_le)
      with le n show ?thesis
        by (auto simp: name_le_def strings_Compare_le)
    qed
    moreover have "name_le c y"
      using le n by (simp add: name_le_def strings_Compare_le)
    ultimately show ?thesis
      using False Cons.prems by simp
  qed
qed

lemma sorted_sort_Slice_name:
  "\<forall>c \<in> set xs. Name c \<noteq> None \<Longrightarrow> sorted_wrt name_le (sort_Slice name_less xs)"
proof (induction xs)
  case Nil
  then show ?case by (simp add: sort_Slice_def)
next
  case (Cons x xs)
  then have "sorted_wrt name_le (sort_Slice name_less xs)"
    by simp
  moreover have "\<forall>d \<in> set (sort_Slice name_less xs). Name d \<noteq> None"
    using Cons.prems by (simp add: set_sort_Slice)
  ultimately have "sorted_wrt name_le (insert_by name_less x (sort_Slice name_less xs))"
    using Cons.prems by (intro sorted_insert_by_name) simp_all
  then show ?case
    by (simp add: sort_Slice_def)
qed

subsection \<open>Adding up the counts, numbering the elements\<close>

lemma fold_totalCount:
  "fold (\<lambda>category totalCount. case Count category of None \<Rightarrow> totalCount
           | Some n \<Rightarrow> totalCount + n) cs acc
     = acc + sum_list (map (\<lambda>c. case Count c of None \<Rightarrow> 0 | Some n \<Rightarrow> n) cs)"
  by (induction cs arbitrary: acc) (simp_all add: add.assoc split: option.split)

lemma sum_counts_wrap:
  "sum_list (map (\<lambda>c. case Count c of None \<Rightarrow> 0 | Some n \<Rightarrow> n) cs)
     = word_of_int (sum_list (map (\<lambda>c. case Count c of None \<Rightarrow> 0 | Some n \<Rightarrow> sint n) cs))"
  by (induction cs) (simp_all split: option.split)

lemma sum_counts_exact:
  assumes "- (2 ^ 63) \<le> sum_list (map (\<lambda>c. case Count c of None \<Rightarrow> 0 | Some n \<Rightarrow> sint n) cs)"
    and "sum_list (map (\<lambda>c. case Count c of None \<Rightarrow> 0 | Some n \<Rightarrow> sint n) cs) < 2 ^ 63"
  shows "sint (sum_list (map (\<lambda>c. case Count c of None \<Rightarrow> 0 | Some n \<Rightarrow> n) cs))
     = sum_list (map (\<lambda>c. case Count c of None \<Rightarrow> 0 | Some n \<Rightarrow> sint n) cs)"
  unfolding sum_counts_wrap using assms by (simp add: sint_sbintrunc' signed_take_bit_int_eq_self)

lemma sum_list_mset_cong:
  fixes g :: "'a \<Rightarrow> 'b::comm_monoid_add"
  shows "mset xs = mset ys \<Longrightarrow> sum_list (map g xs) = sum_list (map g ys)"
  by (metis mset_map sum_mset_sum_list)

lemma lo_Map_Cons: "lo_Map (x # xs) f = f x 0 # lo_Map xs (\<lambda>c i. f c (Suc i))"
  by (simp add: lo_Map_def enumerate_Suc_eq [of 0] split_def)

lemma map_lo_Map_forget:
  assumes "\<And>c i. h (f c i) = h c"
  shows "map h (lo_Map xs f) = map h xs"
  by (rule nth_equalityI) (simp_all add: length_lo_Map nth_lo_Map assms)

lemma sorted_wrt_lo_Map:
  assumes "sorted_wrt P xs" and "\<And>a b i j. P a b \<Longrightarrow> P (f a i) (f b j)"
  shows "sorted_wrt P (lo_Map xs f)"
  using assms by (simp add: sorted_wrt_iff_nth_less length_lo_Map nth_lo_Map)

lemma CategoryList_sorts:
  assumes "AppStoreManagement_CategoryMap svc w = Inr categoryMap"
    and "length categoryMap < 2 \<or> (\<forall>category \<in> set (lo_Values categoryMap). Name category \<noteq> None)"
  shows "CategoryList svc w
           = JSON StatusOK
               (CategoryListOK
                  (lo_Map
                     (\<lparr>Name = Some ''All'', Font = Some ''apps'', Description = Some ''All apps'',
                       Count = Some (sum_list (map (\<lambda>c. case Count c of None \<Rightarrow> 0 | Some n \<Rightarrow> n)
                                              (lo_Values categoryMap))),
                       ID = None\<rparr>
                      # sort_Slice name_less (lo_Values categoryMap))
                     (\<lambda>category i. category\<lparr>ID := Some (int i)\<rparr>)))"
proof -
  have "\<not> (2 \<le> length (lo_Values categoryMap)
            \<and> list_ex (\<lambda>c. Name c = None) (lo_Values categoryMap))"
    using assms(2) by (auto simp: lo_Values_def list_ex_iff)
  moreover have "sum_list (map (\<lambda>c. case Count c of None \<Rightarrow> 0 | Some n \<Rightarrow> n)
                    (sort_Slice name_less (lo_Values categoryMap)))
                 = sum_list (map (\<lambda>c. case Count c of None \<Rightarrow> 0 | Some n \<Rightarrow> n)
                    (lo_Values categoryMap))"
    by (rule sum_list_mset_cong) (rule mset_sort_Slice)
  ultimately show ?thesis
    using assms(1) by (simp add: CategoryList_def fold_totalCount Let_def)
qed

section \<open>The claims\<close>

text \<open>
  C1, as the code has it. A registry of exactly one source: the index is checked first, so
  only index 0 reaches the check for the last source and is refused with status 400; any
  other index is refused as not found, with status 404. Either way the state of the
  services is the one the handler started from.
\<close>

theorem UnregisterAppStore_single:
  assumes "length (AppStoreManagement_AppStoreList svc w) = 1"
  shows "UnregisterAppStore svc ident w =
           ((if ident = 0 then
               JSON StatusBadRequest
                 (ResponseBadRequest
                    ''cannot unregister the last app store - need at least one app store'')
             else
               JSON StatusNotFound
                 (ResponseNotFound (''app store id '' @ fmt_d ident @ '' is not found''))),
            w)"
  using assms by (auto simp: UnregisterAppStore_def)

theorem UnregisterAppStore_single_witness:
  "UnregisterAppStore test_service 0 test_world
     = (JSON StatusBadRequest
          (ResponseBadRequest
             ''cannot unregister the last app store - need at least one app store''),
        test_world)"
  using UnregisterAppStore_single [of test_service test_world 0]
  by (simp add: test_service_simps test_world_simps)

text \<open>
  C1 as stated fails: with one source registered, index 1 is answered with 404 (not
  found), not with the refusal to remove the last source.
\<close>

theorem UnregisterAppStore_single_counterexample:
  "length (AppStoreManagement_AppStoreList test_service test_world) = 1
   \<and> UnregisterAppStore test_service 1 test_world
       = (JSON StatusNotFound (ResponseNotFound ''app store id 1 is not found''), test_world)
   \<and> fst (UnregisterAppStore test_service 1 test_world)
       \<noteq> JSON StatusBadRequest
            (ResponseBadRequest
               ''cannot unregister the last app store - need at least one app store'')"
proof -
  have "fmt_d 1 = ''1''"
    by code_simp
  then show ?thesis
    by (simp add: UnregisterAppStore_def test_service_simps test_world_simps)
qed

text \<open>
  C3. The category filter and the author type filter commute: in either order they keep
  the same entries of the catalog.
\<close>

theorem FilterCatalog_commute:
  "set (FilterCatalogByAuthorType svc (FilterCatalogByCategory svc catalog category) authorType)
     = set (FilterCatalogByCategory svc (FilterCatalogByAuthorType svc catalog authorType)
              category)"
  by (simp add: FilterCatalogByAuthorType_def FilterCatalogByCategory_def
      lo_PickBy_commute lo_PickBy_Nil)

lemma lower_media:
  "ascii_ToLower ''Media'' = ascii_ToLower ''media''"
  "ascii_ToLower ''MEDIA'' = ascii_ToLower ''media''"
  "ascii_ToLower ''Tools'' \<noteq> ascii_ToLower ''media''"
  by code_simp+

theorem FilterCatalog_commute_witness:
  "set (FilterCatalogByAuthorType test_service
          (FilterCatalogByCategory test_service
             [(''x'', app_x), (''y'', app_y), (''z'', app_z)] ''media'') ''official'')
     = {(''x'', app_x)}
   \<and> set (FilterCatalogByCategory test_service
            (FilterCatalogByAuthorType test_service
               [(''x'', app_x), (''y'', app_y), (''z'', app_z)] ''official'') ''media'')
     = {(''x'', app_x)}"
proof -
  have "set (FilterCatalogByCategory test_service
            (FilterCatalogByAuthorType test_service
               [(''x'', app_x), (''y'', app_y), (''z'', app_z)] ''official'') ''media'')
     = {(''x'', app_x)}"
    by (simp add: FilterCatalogByCategory_def FilterCatalogByAuthorType_def lo_PickBy_def
        lo_Contains_def test_service_simps test_service_StoreInfo app_x_def app_y_def
        app_z_def lower_media)
  then show ?thesis
    using FilterCatalog_commute
      [of test_service "[(''x'', app_x), (''y'', app_y), (''z'', app_z)]" "''media''"
        "''official''"]
    by simp
qed

text \<open>
  C4. The listing lowers the requested author type with \<^verbatim>\<open>strings.ToLower\<close> and the filter
  compares the result with the three known author types. When the lowered request is none
  of the three, the filter returns the empty catalog, and the listing answers with status
  200 and an empty list (unless the recommend list was asked for and its fetch failed).
  That covers every request that differs from each of the three up to letter case, given
  that lowering the lowered request changes nothing, as is the case for
  \<^verbatim>\<open>strings.ToLower\<close>; for such a request the filter is empty on the value as requested,
  too.
\<close>

theorem FilterCatalogByAuthorType_unknown_empty:
  "(strings_ToLower svc a \<notin> {Official svc, ByCasaos svc, Community svc}
      \<or> strings_ToLower svc (strings_ToLower svc a) = strings_ToLower svc a
        \<and> strings_ToLower svc a \<notin> {strings_ToLower svc (Official svc),
              strings_ToLower svc (ByCasaos svc), strings_ToLower svc (Community svc)} \<longrightarrow>
      FilterCatalogByAuthorType svc catalog (strings_ToLower svc a) = []
      \<and> (params_AuthorType params = Some a \<longrightarrow>
           V2AppStore_Catalog svc w = Inr catalog \<longrightarrow>
           (params_Recommend params = Some True \<longrightarrow>
              (\<exists>ids. V2AppStore_Recommend svc w = Inr ids)) \<longrightarrow>
           (\<exists>message installed.
              ComposeAppStoreInfoList svc params w
                = JSON StatusOK
                    (ComposeAppStoreInfoListsOK message
                       \<lparr>List = [], Installed = installed\<rparr>))))
   \<and> (strings_ToLower svc a \<notin> {strings_ToLower svc (Official svc),
          strings_ToLower svc (ByCasaos svc), strings_ToLower svc (Community svc)} \<longrightarrow>
        FilterCatalogByAuthorType svc catalog a = [])"
proof -
  have raw: "FilterCatalogByAuthorType svc catalog a = []"
    if "strings_ToLower svc a \<notin> {strings_ToLower svc (Official svc),
          strings_ToLower svc (ByCasaos svc), strings_ToLower svc (Community svc)}"
  proof -
    from that have "a \<notin> {Official svc, ByCasaos svc, Community svc}"
      by auto
    then show ?thesis
      by (rule FilterCatalogByAuthorType_unknown)
  qed
  have low: "strings_ToLower svc a \<notin> {Official svc, ByCasaos svc, Community svc}"
    if "strings_ToLower svc (strings_ToLower svc a) = strings_ToLower svc a"
      and "strings_ToLower svc a \<notin> {strings_ToLower svc (Official svc),
          strings_ToLower svc (ByCasaos svc), strings_ToLower svc (Community svc)}"
    using that by (metis insert_iff)
  have listing: "FilterCatalogByAuthorType svc catalog (strings_ToLower svc a) = []
      \<and> (params_AuthorType params = Some a \<longrightarrow>
           V2AppStore_Catalog svc w = Inr catalog \<longrightarrow>
           (params_Recommend params = Some True \<longrightarrow>
              (\<exists>ids. V2AppStore_Recommend svc w = Inr ids)) \<longrightarrow>
           (\<exists>message installed.
              ComposeAppStoreInfoList svc params w
                = JSON StatusOK
                    (ComposeAppStoreInfoListsOK message
                       \<lparr>List = [], Installed = installed\<rparr>)))"
    if unknown: "strings_ToLower svc a \<notin> {Official svc, ByCasaos svc, Community svc}"
  proof -
    have empty: "FilterCatalogByAuthorType svc c (strings_ToLower svc a) = []" for c
      using unknown by (rule FilterCatalogByAuthorType_unknown)
    have "\<exists>message installed.
       ComposeAppStoreInfoList svc params w
         = JSON StatusOK
             (ComposeAppStoreInfoListsOK message \<lparr>List = [], Installed = installed\<rparr>)"
      if p: "params_AuthorType params = Some a"
        and c: "V2AppStore_Catalog svc w = Inr catalog"
        and r: "params_Recommend params = Some True \<longrightarrow>
                  (\<exists>ids. V2AppStore_Recommend svc w = Inr ids)"
    proof -
      have "filtered_catalog svc params w catalog = Inr []"
        using p r
        by (auto simp: filtered_catalog_def narrowed_catalog_def empty
            FilterCatalogByAppStoreID_Nil)
      then show ?thesis
        using c by (cases "Compose_List svc w")
          (simp_all add: ComposeAppStoreInfoList_def store_info_list_Nil)
    qed
    with empty show ?thesis
      by blast
  qed
  show ?thesis
    using raw low listing by blast
qed

lemma lower_Verified:
  "ascii_ToLower ''Verified'' = ''verified''"
  "ascii_ToLower ''verified'' = ''verified''"
  "ascii_ToLower ''official'' = ''official''"
  "ascii_ToLower ''by_casaos'' = ''by_casaos''"
  "ascii_ToLower ''community'' = ''community''"
  by code_simp+

theorem FilterCatalogByAuthorType_unknown_empty_witness:
  "strings_ToLower test_service ''Verified'' = ''verified''
   \<and> FilterCatalogByAuthorType test_service [(''x'', app_x), (''y'', app_y), (''z'', app_z)]
       ''verified'' = []
   \<and> FilterCatalogByAuthorType test_service [(''x'', app_x), (''y'', app_y), (''z'', app_z)]
       ''Verified'' = []
   \<and> ComposeAppStoreInfoList test_service (no_params\<lparr>params_AuthorType := Some ''Verified''\<rparr>)
       test_world
     = JSON StatusOK
         (ComposeAppStoreInfoListsOK None \<lparr>List = [], Installed = Some [''x'']\<rparr>)"
proof -
  let ?catalog = "[(''x'', app_x), (''y'', app_y), (''z'', app_z)]"
  let ?params = "no_params\<lparr>params_AuthorType := Some ''Verified''\<rparr>"
  have lowered: "strings_ToLower test_service ''Verified'' = ''verified''"
    by (simp add: test_service_simps lower_Verified)
  have hyp: "strings_ToLower test_service (strings_ToLower test_service ''Verified'')
        = strings_ToLower test_service ''Verified''
      \<and> strings_ToLower test_service ''Verified''
          \<notin> {strings_ToLower test_service (Official test_service),
              strings_ToLower test_service (ByCasaos test_service),
              strings_ToLower test_service (Community test_service)}"
    by (simp add: test_service_simps lower_Verified)
  note unknown = FilterCatalogByAuthorType_unknown_empty
    [of test_service "''Verified''" ?catalog ?params test_world]
  have empty: "FilterCatalogByAuthorType test_service ?catalog ''verified'' = []"
    and raw: "FilterCatalogByAuthorType test_service ?catalog ''Verified'' = []"
    using unknown hyp lowered by simp_all
  have "\<exists>message installed.
      ComposeAppStoreInfoList test_service ?params test_world
      = JSON StatusOK (ComposeAppStoreInfoListsOK message \<lparr>List = [], Installed = installed\<rparr>)"
    using unknown hyp by (simp add: no_params_def test_service_simps test_world_simps)
  then obtain message installed where run:
    "ComposeAppStoreInfoList test_service ?params test_world
      = JSON StatusOK (ComposeAppStoreInfoListsOK message \<lparr>List = [], Installed = installed\<rparr>)"
    by blast
  have inst: "installed_ids test_service [(''broken'', app_z), (''my-x'', app_x)] = [''x'']"
    by (simp add: installed_ids_def lo_FilterMap_no_index lo_Values_def
        test_service_StoreInfo app_x_def app_z_def)
  have "message = None \<and> installed = Some [''x'']"
    using run
    by (simp add: ComposeAppStoreInfoList_def test_service_simps test_world_simps inst
        split: sum.splits)
  with run empty raw lowered show ?thesis
    by simp
qed

lemma in_FilterCatalogByCategory:
  "category \<noteq> [] \<Longrightarrow>
   (storeAppID, composeApp) \<in> set (FilterCatalogByCategory svc catalog category)
     \<longleftrightarrow> (storeAppID, composeApp) \<in> set catalog
         \<and> (\<exists>storeInfo. ComposeApp_StoreInfo svc composeApp True = Inr storeInfo
               \<and> strings_ToLower svc (Category storeInfo) = strings_ToLower svc category)"
  by (cases "ComposeApp_StoreInfo svc composeApp True")
    (simp_all add: FilterCatalogByCategory_def set_lo_PickBy)

text \<open>
  C8. The category filter with the empty category returns the catalog as it is. With any
  other category it keeps exactly the entries whose store info projection succeeds with a
  category equal to the argument up to letter case, that is, with the same
  \<^verbatim>\<open>strings.ToLower\<close>; an entry whose projection fails is not kept.
\<close>

theorem FilterCatalogByCategory_spec:
  "FilterCatalogByCategory svc catalog [] = catalog
   \<and> (category \<noteq> [] \<longrightarrow>
        set (FilterCatalogByCategory svc catalog category)
          = {(storeAppID, composeApp). (storeAppID, composeApp) \<in> set catalog
               \<and> (\<exists>storeInfo. ComposeApp_StoreInfo svc composeApp True = Inr storeInfo
                     \<and> strings_ToLower svc (Category storeInfo)
                         = strings_ToLower svc category)}
        \<and> (\<forall>storeAppID composeApp err.
              ComposeApp_StoreInfo svc composeApp True = Inl err \<longrightarrow>
              (storeAppID, composeApp) \<notin> set (FilterCatalogByCategory svc catalog category)))"
proof -
  have "FilterCatalogByCategory svc catalog [] = catalog"
    by (simp add: FilterCatalogByCategory_def)
  then show ?thesis
    by (auto simp: in_FilterCatalogByCategory)
qed

theorem FilterCatalogByCategory_spec_witness:
  "FilterCatalogByCategory test_service
     [(''x'', app_x), (''t'', app_t), (''z'', app_z), (''u'', app_u)] []
     = [(''x'', app_x), (''t'', app_t), (''z'', app_z), (''u'', app_u)]
   \<and> FilterCatalogByCategory test_service
       [(''x'', app_x), (''t'', app_t), (''z'', app_z), (''u'', app_u)] ''media''
     = [(''x'', app_x), (''u'', app_u)]
   \<and> ComposeApp_StoreInfo test_service app_z True = Inl ''extension x-casaos not found''
   \<and> (''z'', app_z) \<notin> set (FilterCatalogByCategory test_service
          [(''x'', app_x), (''t'', app_t), (''z'', app_z), (''u'', app_u)] ''media'')"
proof -
  let ?catalog = "[(''x'', app_x), (''t'', app_t), (''z'', app_z), (''u'', app_u)]"
  note spec = FilterCatalogByCategory_spec [of test_service ?catalog "''media''"]
  have given: "''media'' \<noteq> []"
    by simp
  have z: "ComposeApp_StoreInfo test_service app_z True = Inl ''extension x-casaos not found''"
    by (simp add: test_service_StoreInfo app_z_def)
  have unchanged: "FilterCatalogByCategory test_service ?catalog [] = ?catalog"
    using spec by (rule conjunct1)
  have dropped: "(''z'', app_z) \<notin> set (FilterCatalogByCategory test_service ?catalog ''media'')"
    using spec given z by blast
  have x: "ComposeApp_StoreInfo test_service app_x True
             = Inr \<lparr>Category = ''Media'', StoreAppID = Some ''x''\<rparr>"
    and t: "ComposeApp_StoreInfo test_service app_t True
             = Inr \<lparr>Category = ''Tools'', StoreAppID = Some ''t''\<rparr>"
    and u: "ComposeApp_StoreInfo test_service app_u True
             = Inr \<lparr>Category = ''MEDIA'', StoreAppID = None\<rparr>"
    by (simp_all add: test_service_StoreInfo app_x_def app_t_def app_u_def)
  have kept: "FilterCatalogByCategory test_service ?catalog ''media''
                = [(''x'', app_x), (''u'', app_u)]"
    by (simp add: FilterCatalogByCategory_def lo_PickBy_def x t u z test_service_simps
        lower_media)
  from unchanged kept z dropped show ?thesis
    by (intro conjI)
qed

lemma set_FilterCatalogByAppStoreID:
  "set (FilterCatalogByAppStoreID catalog ids)
     = {(storeAppID, composeApp). (storeAppID, composeApp) \<in> set catalog \<and> storeAppID \<in> set ids}"
  by (simp add: FilterCatalogByAppStoreID_def set_lo_PickBy lo_Contains_def)

lemma store_info_list_append:
  "store_info_list svc (xs @ ys) = store_info_list svc xs @ store_info_list svc ys"
  by (simp add: store_info_list_def lo_MapValues_def)

lemma installed_ids_append:
  "installed_ids svc (xs @ ys) = installed_ids svc xs @ installed_ids svc ys"
  by (simp add: installed_ids_def lo_FilterMap_no_index lo_Values_def map_filter_def)

lemma FilterCatalogByCategory_append:
  "FilterCatalogByCategory svc (xs @ ys) category
     = FilterCatalogByCategory svc xs category @ FilterCatalogByCategory svc ys category"
  by (simp add: FilterCatalogByCategory_def lo_PickBy_append)

lemma ComposeAppStoreInfoList_filtered:
  assumes "V2AppStore_Catalog svc w = Inr catalog"
    and "filtered_catalog svc params w catalog = Inr filtered"
  shows "ComposeAppStoreInfoList svc params w =
           (case Compose_List svc w of
              Inl err \<Rightarrow>
                JSON StatusOK
                  (ComposeAppStoreInfoListsOK (Some (Error svc err))
                     \<lparr>List = store_info_list svc filtered, Installed = None\<rparr>)
            | Inr installedComposeApps \<Rightarrow>
                JSON StatusOK
                  (ComposeAppStoreInfoListsOK None
                     \<lparr>List = store_info_list svc filtered,
                      Installed = Some (installed_ids svc installedComposeApps)\<rparr>))"
  using assms by (simp add: ComposeAppStoreInfoList_def split: sum.splits)

lemma test_catalog_simps:
  "FilterCatalogByAppStoreID [(''x'', app_x), (''y'', app_y), (''z'', app_z)] [''y'']
     = [(''y'', app_y)]"
  "store_info_list test_service [(''x'', app_x), (''y'', app_y), (''z'', app_z)]
     = [(''x'', \<lparr>Category = ''Media'', StoreAppID = Some ''x''\<rparr>),
        (''y'', \<lparr>Category = ''Media'', StoreAppID = Some ''y''\<rparr>),
        (''z'', ComposeAppStoreInfo_zero)]"
  "installed_ids test_service [(''broken'', app_z), (''my-x'', app_x)] = [''x'']"
  by (simp_all add: FilterCatalogByAppStoreID_def lo_PickBy_def lo_Contains_def
      store_info_list_def lo_MapValues_def installed_ids_def lo_FilterMap_no_index
      lo_Values_def test_service_StoreInfo app_x_def app_y_def app_z_def)

lemma narrowed_catalog_no_params:
  "narrowed_catalog svc no_params catalog = catalog"
  "narrowed_catalog svc (no_params\<lparr>params_Recommend := r\<rparr>) catalog = catalog"
  "params_Recommend no_params = None"
  by (simp_all add: narrowed_catalog_def no_params_def)

lemma map_fst_store_info_list: "map fst (store_info_list svc catalog) = map fst catalog"
  by (simp add: store_info_list_def lo_MapValues_def case_prod_beta)

lemma map_fst_FilterCatalogByAppStoreID:
  "map fst (FilterCatalogByAppStoreID catalog ids)
     = filter (\<lambda>storeAppID. storeAppID \<in> set ids) (map fst catalog)"
  by (simp add: FilterCatalogByAppStoreID_def lo_PickBy_def lo_Contains_def filter_map
      comp_def case_prod_unfold)

lemma other_Recommend:
  "narrowed_catalog (svc\<lparr>V2AppStore_Recommend := recommend\<rparr>) params catalog
     = narrowed_catalog svc params catalog"
  "store_info_list (svc\<lparr>V2AppStore_Recommend := recommend\<rparr>) catalog
     = store_info_list svc catalog"
  by (simp_all add: narrowed_catalog_def FilterCatalogByCategory_def
      FilterCatalogByAuthorType_def store_info_list_def Let_def
      cong: if_cong sum.case_cong option.case_cong)

lemma ComposeAppStoreInfoList_answered:
  assumes "V2AppStore_Catalog svc w = Inr catalog"
    and "filtered_catalog svc params w catalog = Inr filtered"
  shows "\<exists>message installed.
           ComposeAppStoreInfoList svc params w
             = JSON StatusOK
                 (ComposeAppStoreInfoListsOK message
                    \<lparr>List = store_info_list svc filtered, Installed = installed\<rparr>)"
  using ComposeAppStoreInfoList_filtered [OF assms]
  by (cases "Compose_List svc w") simp_all

text \<open>
  C6. The recommend filter in the listing, for a catalog that was fetched. Unless the flag
  is present and true, the recommend list plays no part: with any operation in the place of
  its fetch (one that fails, too) the listing answers with status 200 and lists the
  catalog as the category and author type filters left it. With the flag true, a failed
  fetch of the recommend list ends the request with status 500 and nothing but the error's
  message; a fetched list gives status 200, and the entries listed are those that the two
  filters left and whose identifier is in the recommend list, no other. The filter itself
  keeps exactly the entries whose identifier is in the list.
\<close>

theorem recommend_filter:
  assumes "V2AppStore_Catalog svc w = Inr catalog"
  shows "(params_Recommend params \<noteq> Some True \<longrightarrow>
            filtered_catalog svc params w catalog = Inr (narrowed_catalog svc params catalog)
            \<and> (\<forall>recommend. \<exists>message installed.
                  ComposeAppStoreInfoList (svc\<lparr>V2AppStore_Recommend := recommend\<rparr>) params w
                    = JSON StatusOK
                        (ComposeAppStoreInfoListsOK message
                           \<lparr>List = store_info_list svc (narrowed_catalog svc params catalog),
                            Installed = installed\<rparr>)))
         \<and> (params_Recommend params = Some True \<longrightarrow>
              (\<forall>err. V2AppStore_Recommend svc w = Inl err \<longrightarrow>
                 ComposeAppStoreInfoList svc params w
                   = JSON StatusInternalServerError
                       (ResponseInternalServerError (Error svc err)))
              \<and> (\<forall>ids. V2AppStore_Recommend svc w = Inr ids \<longrightarrow>
                   filtered_catalog svc params w catalog
                     = Inr (FilterCatalogByAppStoreID (narrowed_catalog svc params catalog) ids)
                   \<and> (\<exists>message installed list.
                        ComposeAppStoreInfoList svc params w
                          = JSON StatusOK
                              (ComposeAppStoreInfoListsOK message
                                 \<lparr>List = list, Installed = installed\<rparr>)
                        \<and> list = store_info_list svc
                             (FilterCatalogByAppStoreID (narrowed_catalog svc params catalog) ids)
                        \<and> map fst list
                            = filter (\<lambda>storeAppID. storeAppID \<in> set ids)
                                (map fst (narrowed_catalog svc params catalog)))))
         \<and> set (FilterCatalogByAppStoreID catalog ids)
             = {(storeAppID, composeApp).
                  (storeAppID, composeApp) \<in> set catalog \<and> storeAppID \<in> set ids}"
proof -
  have off: "\<exists>message installed.
      ComposeAppStoreInfoList (svc\<lparr>V2AppStore_Recommend := recommend\<rparr>) params w
        = JSON StatusOK
            (ComposeAppStoreInfoListsOK message
               \<lparr>List = store_info_list svc (narrowed_catalog svc params catalog),
                Installed = installed\<rparr>)"
    if "params_Recommend params \<noteq> Some True" for recommend
    using ComposeAppStoreInfoList_answered
        [of "svc\<lparr>V2AppStore_Recommend := recommend\<rparr>" w catalog params
          "narrowed_catalog svc params catalog"] assms that
    by (simp add: filtered_catalog_def other_Recommend)
  have failed: "ComposeAppStoreInfoList svc params w
      = JSON StatusInternalServerError (ResponseInternalServerError (Error svc err))"
    if "params_Recommend params = Some True" "V2AppStore_Recommend svc w = Inl err" for err
    using that assms by (simp add: ComposeAppStoreInfoList_def filtered_catalog_def)
  have fetched: "\<exists>message installed list.
      ComposeAppStoreInfoList svc params w
        = JSON StatusOK (ComposeAppStoreInfoListsOK message \<lparr>List = list, Installed = installed\<rparr>)
      \<and> list = store_info_list svc
           (FilterCatalogByAppStoreID (narrowed_catalog svc params catalog) ids)
      \<and> map fst list = filter (\<lambda>storeAppID. storeAppID \<in> set ids)
                          (map fst (narrowed_catalog svc params catalog))"
    if "params_Recommend params = Some True" "V2AppStore_Recommend svc w = Inr ids" for ids
  proof -
    have "filtered_catalog svc params w catalog
            = Inr (FilterCatalogByAppStoreID (narrowed_catalog svc params catalog) ids)"
      using that by (simp add: filtered_catalog_def)
    from ComposeAppStoreInfoList_answered [OF assms this] show ?thesis
      by (simp add: map_fst_store_info_list map_fst_FilterCatalogByAppStoreID)
  qed
  show ?thesis
    using off failed fetched
    by (simp add: filtered_catalog_def set_FilterCatalogByAppStoreID)
qed

theorem recommend_filter_witness:
  "ComposeAppStoreInfoList test_service (no_params\<lparr>params_Recommend := Some True\<rparr>) test_world
     = JSON StatusOK
         (ComposeAppStoreInfoListsOK None
            \<lparr>List = [(''y'', \<lparr>Category = ''Media'', StoreAppID = Some ''y''\<rparr>)],
             Installed = Some [''x'']\<rparr>)
   \<and> ComposeAppStoreInfoList test_service (no_params\<lparr>params_Recommend := Some True\<rparr>)
       (test_world\<lparr>world_recommended := Inl ''recommend list not available''\<rparr>)
     = JSON StatusInternalServerError
         (ResponseInternalServerError ''recommend list not available'')
   \<and> ComposeAppStoreInfoList test_service (no_params\<lparr>params_Recommend := Some False\<rparr>)
       (test_world\<lparr>world_recommended := Inl ''recommend list not available''\<rparr>)
     = JSON StatusOK
         (ComposeAppStoreInfoListsOK None
            \<lparr>List = [(''x'', \<lparr>Category = ''Media'', StoreAppID = Some ''x''\<rparr>),
                     (''y'', \<lparr>Category = ''Media'', StoreAppID = Some ''y''\<rparr>),
                     (''z'', ComposeAppStoreInfo_zero)],
             Installed = Some [''x'']\<rparr>)"
proof -
  let ?catalog = "[(''x'', app_x), (''y'', app_y), (''z'', app_z)]"
  let ?on = "no_params\<lparr>params_Recommend := Some True\<rparr>"
  let ?off = "no_params\<lparr>params_Recommend := Some False\<rparr>"
  let ?failing = "test_world\<lparr>world_recommended := Inl ''recommend list not available''\<rparr>"
  have c: "V2AppStore_Catalog test_service test_world = Inr ?catalog"
    "V2AppStore_Catalog test_service ?failing = Inr ?catalog"
    by (simp_all add: test_service_simps test_world_simps)
  have flag: "params_Recommend ?on = Some True" "params_Recommend ?off \<noteq> Some True"
    by simp_all
  have r: "V2AppStore_Recommend test_service test_world = Inr [''y'']"
    "V2AppStore_Recommend test_service ?failing = Inl ''recommend list not available''"
    by (simp_all add: test_service_simps test_world_simps)
  have y: "store_info_list test_service [(''y'', app_y)]
             = [(''y'', \<lparr>Category = ''Media'', StoreAppID = Some ''y''\<rparr>)]"
    by (simp add: store_info_list_def lo_MapValues_def test_service_StoreInfo app_y_def)
  have i: "Compose_List test_service test_world = Inr [(''broken'', app_z), (''my-x'', app_x)]"
    "Compose_List test_service ?failing = Inr [(''broken'', app_z), (''my-x'', app_x)]"
    by (simp_all add: test_service_simps test_world_simps)
  have same: "test_service\<lparr>V2AppStore_Recommend := V2AppStore_Recommend test_service\<rparr>
                = test_service"
    by simp
  from recommend_filter [OF c(1), of ?on "[''y'']"] flag(1) r(1)
  have "\<exists>message installed list.
      ComposeAppStoreInfoList test_service ?on test_world
        = JSON StatusOK (ComposeAppStoreInfoListsOK message \<lparr>List = list, Installed = installed\<rparr>)
      \<and> list = store_info_list test_service
           (FilterCatalogByAppStoreID (narrowed_catalog test_service ?on ?catalog) [''y''])"
    by blast
  then obtain message installed where
    "ComposeAppStoreInfoList test_service ?on test_world
       = JSON StatusOK
           (ComposeAppStoreInfoListsOK message
              \<lparr>List = [(''y'', \<lparr>Category = ''Media'', StoreAppID = Some ''y''\<rparr>)],
               Installed = installed\<rparr>)"
    by (auto simp: narrowed_catalog_no_params test_catalog_simps y)
  then have fetched: "ComposeAppStoreInfoList test_service ?on test_world
       = JSON StatusOK
           (ComposeAppStoreInfoListsOK None
              \<lparr>List = [(''y'', \<lparr>Category = ''Media'', StoreAppID = Some ''y''\<rparr>)],
               Installed = Some [''x'']\<rparr>)"
    by (simp add: ComposeAppStoreInfoList_def c i test_catalog_simps split: sum.splits)
  from recommend_filter [OF c(2), of ?on "[''y'']"] flag(1) r(2)
  have failed: "ComposeAppStoreInfoList test_service ?on ?failing
     = JSON StatusInternalServerError
         (ResponseInternalServerError (Error test_service ''recommend list not available''))"
    by blast
  from recommend_filter [OF c(2), of ?off "[''y'']"] flag(2)
  have "\<exists>message installed.
      ComposeAppStoreInfoList
        (test_service\<lparr>V2AppStore_Recommend := V2AppStore_Recommend test_service\<rparr>) ?off ?failing
        = JSON StatusOK
           (ComposeAppStoreInfoListsOK message
              \<lparr>List = store_info_list test_service (narrowed_catalog test_service ?off ?catalog),
               Installed = installed\<rparr>)"
    by blast
  then obtain message' installed' where
    "ComposeAppStoreInfoList test_service ?off ?failing
       = JSON StatusOK
           (ComposeAppStoreInfoListsOK message'
              \<lparr>List = store_info_list test_service ?catalog, Installed = installed'\<rparr>)"
    unfolding same by (auto simp: narrowed_catalog_no_params)
  then have off: "ComposeAppStoreInfoList test_service ?off ?failing
       = JSON StatusOK
           (ComposeAppStoreInfoListsOK None
              \<lparr>List = [(''x'', \<lparr>Category = ''Media'', StoreAppID = Some ''x''\<rparr>),
                     (''y'', \<lparr>Category = ''Media'', StoreAppID = Some ''y''\<rparr>),
                     (''z'', ComposeAppStoreInfo_zero)],
               Installed = Some [''x'']\<rparr>)"
    by (simp add: ComposeAppStoreInfoList_def c i test_catalog_simps split: sum.splits)
  from fetched failed off show ?thesis
    by (simp add: test_service_simps)
qed

text \<open>
  C10. When the catalog was fetched and filtered and the fetch of the installed apps
  fails, the listing still answers with status 200: the body carries the error's message
  and the store info list of the filtered catalog, and no installed identifiers.
\<close>

theorem installed_fetch_failure:
  assumes "V2AppStore_Catalog svc w = Inr catalog"
    and "filtered_catalog svc params w catalog = Inr filtered"
    and "Compose_List svc w = Inl err"
  shows "ComposeAppStoreInfoList svc params w
           = JSON StatusOK
               (ComposeAppStoreInfoListsOK (Some (Error svc err))
                  \<lparr>List = store_info_list svc filtered, Installed = None\<rparr>)"
  using assms by (simp add: ComposeAppStoreInfoList_filtered)

theorem installed_fetch_failure_witness:
  "ComposeAppStoreInfoList test_service (no_params\<lparr>params_Recommend := Some True\<rparr>)
     (test_world\<lparr>world_installed := Inl ''cannot connect to the docker daemon''\<rparr>)
     = JSON StatusOK
         (ComposeAppStoreInfoListsOK (Some ''cannot connect to the docker daemon'')
            \<lparr>List = [(''y'', \<lparr>Category = ''Media'', StoreAppID = Some ''y''\<rparr>)],
             Installed = None\<rparr>)"
proof -
  let ?w = "test_world\<lparr>world_installed := Inl ''cannot connect to the docker daemon''\<rparr>"
  let ?p = "no_params\<lparr>params_Recommend := Some True\<rparr>"
  have c: "V2AppStore_Catalog test_service ?w
             = Inr [(''x'', app_x), (''y'', app_y), (''z'', app_z)]"
    by (simp add: test_service_simps test_world_simps)
  have f: "filtered_catalog test_service ?p ?w [(''x'', app_x), (''y'', app_y), (''z'', app_z)]
             = Inr [(''y'', app_y)]"
    by (simp add: filtered_catalog_def narrowed_catalog_no_params test_service_simps
        test_world_simps test_catalog_simps)
  have i: "Compose_List test_service ?w = Inl ''cannot connect to the docker daemon''"
    by (simp add: test_service_simps)
  have l: "store_info_list test_service [(''y'', app_y)]
             = [(''y'', \<lparr>Category = ''Media'', StoreAppID = Some ''y''\<rparr>)]"
    by (simp add: store_info_list_def lo_MapValues_def test_service_StoreInfo app_y_def)
  show ?thesis
    using installed_fetch_failure [OF c f i] l by (simp add: test_service_simps)
qed

text \<open>
  C2, as the code has it. An entry whose store info projection fails is left out by the
  category filter (when a category is given) and by the installed identifiers, and the
  entries around it are treated as if it were not there. In the store info listing it
  stays, under its identifier, with the zero store info; the entries around it are listed
  as before. The listing is answered with status 200 and that list whenever the catalog
  was fetched and filtered.
\<close>

theorem failed_projection_per_entry:
  "(ComposeApp_StoreInfo svc composeApp True = Inl err \<longrightarrow>
      (category \<noteq> [] \<longrightarrow>
         FilterCatalogByCategory svc (xs @ (storeAppID, composeApp) # ys) category
           = FilterCatalogByCategory svc xs category @ FilterCatalogByCategory svc ys category)
      \<and> store_info_list svc (xs @ (storeAppID, composeApp) # ys)
          = store_info_list svc xs @ (storeAppID, ComposeAppStoreInfo_zero)
              # store_info_list svc ys)
   \<and> (ComposeApp_StoreInfo svc composeApp False = Inl err \<longrightarrow>
        installed_ids svc (xs @ (storeAppID, composeApp) # ys)
          = installed_ids svc xs @ installed_ids svc ys)
   \<and> (V2AppStore_Catalog svc w = Inr catalog \<longrightarrow>
        filtered_catalog svc params w catalog = Inr filtered \<longrightarrow>
        (\<exists>message installed.
           ComposeAppStoreInfoList svc params w
             = JSON StatusOK
                 (ComposeAppStoreInfoListsOK message
                    \<lparr>List = store_info_list svc filtered, Installed = installed\<rparr>)))"
proof -
  have one_filter: "FilterCatalogByCategory svc [(storeAppID, composeApp)] category = []"
    if "ComposeApp_StoreInfo svc composeApp True = Inl err" "category \<noteq> []"
    using that by (simp add: FilterCatalogByCategory_def lo_PickBy_def)
  have one_list: "store_info_list svc [(storeAppID, composeApp)]
                    = [(storeAppID, ComposeAppStoreInfo_zero)]"
    if "ComposeApp_StoreInfo svc composeApp True = Inl err"
    using that by (simp add: store_info_list_def lo_MapValues_def)
  have one_installed: "installed_ids svc [(storeAppID, composeApp)] = []"
    if "ComposeApp_StoreInfo svc composeApp False = Inl err"
    using that by (simp add: installed_ids_def lo_FilterMap_no_index lo_Values_def)
  have split: "xs @ (storeAppID, composeApp) # ys = xs @ [(storeAppID, composeApp)] @ ys"
    by simp
  have answered: "\<exists>message installed.
      ComposeAppStoreInfoList svc params w
        = JSON StatusOK
            (ComposeAppStoreInfoListsOK message
               \<lparr>List = store_info_list svc filtered, Installed = installed\<rparr>)"
    if "V2AppStore_Catalog svc w = Inr catalog"
      "filtered_catalog svc params w catalog = Inr filtered"
    using ComposeAppStoreInfoList_filtered [OF that]
    by (cases "Compose_List svc w") simp_all
  show ?thesis
    unfolding split FilterCatalogByCategory_append store_info_list_append
      installed_ids_append
    using one_filter one_list one_installed answered by simp
qed

theorem failed_projection_per_entry_witness:
  "ComposeApp_StoreInfo test_service app_z True = Inl ''extension x-casaos not found''
   \<and> FilterCatalogByCategory test_service [(''x'', app_x), (''z'', app_z), (''y'', app_y)] ''media''
     = FilterCatalogByCategory test_service [(''x'', app_x)] ''media''
         @ FilterCatalogByCategory test_service [(''y'', app_y)] ''media''
   \<and> store_info_list test_service [(''x'', app_x), (''z'', app_z), (''y'', app_y)]
     = store_info_list test_service [(''x'', app_x)] @ (''z'', ComposeAppStoreInfo_zero)
         # store_info_list test_service [(''y'', app_y)]
   \<and> installed_ids test_service [(''x'', app_x), (''z'', app_z), (''y'', app_y)]
     = installed_ids test_service [(''x'', app_x)] @ installed_ids test_service [(''y'', app_y)]"
proof -
  have z: "ComposeApp_StoreInfo test_service app_z b = Inl ''extension x-casaos not found''" for b
    by (simp add: test_service_StoreInfo app_z_def)
  show ?thesis
    using failed_projection_per_entry
      [of test_service app_z "''extension x-casaos not found''" "''media''"
        "[(''x'', app_x)]" "''z''" "[(''y'', app_y)]"] z
    by simp
qed

text \<open>
  C2 as stated fails for the store info listing: the entry \<open>z\<close>, whose projection fails, is
  in the list of the response.
\<close>

theorem failed_projection_listed_counterexample:
  "ComposeApp_StoreInfo test_service app_z True = Inl ''extension x-casaos not found''
   \<and> V2AppStore_Catalog test_service test_world
       = Inr [(''x'', app_x), (''y'', app_y), (''z'', app_z)]
   \<and> ComposeAppStoreInfoList test_service no_params test_world
     = JSON StatusOK
         (ComposeAppStoreInfoListsOK None
            \<lparr>List = [(''x'', \<lparr>Category = ''Media'', StoreAppID = Some ''x''\<rparr>),
                     (''y'', \<lparr>Category = ''Media'', StoreAppID = Some ''y''\<rparr>),
                     (''z'', \<lparr>Category = [], StoreAppID = None\<rparr>)],
             Installed = Some [''x'']\<rparr>)"
proof -
  have "ComposeApp_StoreInfo test_service app_z True = Inl ''extension x-casaos not found''"
    by (simp add: test_service_StoreInfo app_z_def)
  then show ?thesis
    by (simp add: ComposeAppStoreInfoList_def filtered_catalog_def narrowed_catalog_no_params
        test_service_simps test_world_simps test_catalog_simps ComposeAppStoreInfo_zero_def)
qed

lemma RegisterAppStore_isExist_iff:
  "lo_ContainsBy (AppStoreManagement_AppStoreList svc w)
     (\<lambda>appstore. case URL appstore of None \<Rightarrow> False
        | Some u \<Rightarrow> strings_ToLower svc u = strings_ToLower svc url)
   \<longleftrightarrow> registered svc w url"
  by (auto simp: lo_ContainsBy_def list_ex_iff split: option.splits)

lemma RegisterAppStore_isExist:
  assumes "url \<noteq> []" and "registered svc w url"
  shows "RegisterAppStore svc (Some url) w
           = (JSON StatusOK (AppStoreRegisterOK ''appstore is already registered''), w)"
  using assms by (simp add: RegisterAppStore_def RegisterAppStore_isExist_iff)

lemma RegisterAppStore_new:
  assumes "url \<noteq> []" and "\<not> registered svc w url"
    and "AppStoreManagement_RegisterAppStore svc url w = (None, w1)"
  shows "RegisterAppStore svc (Some url) w
           = (JSON StatusOK
                (AppStoreRegisterOK
                   (''trying to register app store asynchronously - see ''
                      @ logFilepath svc @ '' for any errors.'')), w1)"
  using assms by (simp add: RegisterAppStore_def RegisterAppStore_isExist_iff)

text \<open>
  C7. Registering a (non-empty) URL that the registry already holds up to letter case
  answers with status 200 and the message that the store is already registered; the state
  of the services is returned as it was, and this holds with any operation in the place
  of the collaborator that validates and persists, so that collaborator is not called.
  And the same URL registered twice: the first call finds the URL in the registry, or it
  does not, the collaborator accepts the URL and the registry holds it afterwards. Then
  the first call is answered with status 200, and a second call with the URL in any letter
  case is answered with status 200, the store being already registered, and leaves the
  state, and so the size of the registry, as the first call left it.
\<close>

theorem RegisterAppStore_already_registered:
  "(url \<noteq> [] \<longrightarrow> registered svc w url \<longrightarrow>
      (\<forall>register.
         RegisterAppStore (svc\<lparr>AppStoreManagement_RegisterAppStore := register\<rparr>) (Some url) w
           = (JSON StatusOK (AppStoreRegisterOK ''appstore is already registered''), w)))
   \<and> (url \<noteq> [] \<longrightarrow> url2 \<noteq> [] \<longrightarrow> strings_ToLower svc url2 = strings_ToLower svc url \<longrightarrow>
        (registered svc w url \<and> w1 = w
         \<or> \<not> registered svc w url
           \<and> AppStoreManagement_RegisterAppStore svc url w = (None, w1)
           \<and> registered svc w1 url) \<longrightarrow>
        (\<exists>message.
           RegisterAppStore svc (Some url) w = (JSON StatusOK (AppStoreRegisterOK message), w1))
        \<and> RegisterAppStore svc (Some url2) w1
            = (JSON StatusOK (AppStoreRegisterOK ''appstore is already registered''), w1)
        \<and> length (AppStoreManagement_AppStoreList svc
                     (snd (RegisterAppStore svc (Some url2) w1)))
            = length (AppStoreManagement_AppStoreList svc w1))"
proof -
  have any: "RegisterAppStore (svc\<lparr>AppStoreManagement_RegisterAppStore := register\<rparr>)
        (Some url) w
      = (JSON StatusOK (AppStoreRegisterOK ''appstore is already registered''), w)"
    if "url \<noteq> []" "registered svc w url" for register
    using that by (intro RegisterAppStore_isExist) simp_all
  have twice: "(\<exists>message.
           RegisterAppStore svc (Some url) w = (JSON StatusOK (AppStoreRegisterOK message), w1))
        \<and> RegisterAppStore svc (Some url2) w1
            = (JSON StatusOK (AppStoreRegisterOK ''appstore is already registered''), w1)"
    if nonempty: "url \<noteq> []" "url2 \<noteq> []"
      and same: "strings_ToLower svc url2 = strings_ToLower svc url"
      and first: "registered svc w url \<and> w1 = w
         \<or> \<not> registered svc w url
           \<and> AppStoreManagement_RegisterAppStore svc url w = (None, w1)
           \<and> registered svc w1 url"
  proof -
    from first have held: "registered svc w1 url"
      by auto
    then have "registered svc w1 url2"
      using same by simp
    with nonempty have second: "RegisterAppStore svc (Some url2) w1
        = (JSON StatusOK (AppStoreRegisterOK ''appstore is already registered''), w1)"
      by (intro RegisterAppStore_isExist)
    from first have "\<exists>message.
        RegisterAppStore svc (Some url) w = (JSON StatusOK (AppStoreRegisterOK message), w1)"
    proof
      assume "registered svc w url \<and> w1 = w"
      then show ?thesis
        using RegisterAppStore_isExist [OF nonempty(1), of svc w] by auto
    next
      assume "\<not> registered svc w url
           \<and> AppStoreManagement_RegisterAppStore svc url w = (None, w1)
           \<and> registered svc w1 url"
      then show ?thesis
        using RegisterAppStore_new [OF nonempty(1), of svc w w1] by auto
    qed
    with second show ?thesis
      by simp
  qed
  show ?thesis
    using any twice by simp
qed

lemma lower_store_url:
  "ascii_ToLower ''HTTP://EXAMPLE.COM/STORE'' = ascii_ToLower ''http://Example.com/store''"
  by code_simp

theorem RegisterAppStore_already_registered_witness:
  "RegisterAppStore test_service (Some ''http://Example.com/store'')
     (test_world\<lparr>world_stores := []\<rparr>)
     = (JSON StatusOK
          (AppStoreRegisterOK
             (''trying to register app store asynchronously - see ''
                @ logFilepath test_service @ '' for any errors.'')), test_world)
   \<and> RegisterAppStore test_service (Some ''HTTP://EXAMPLE.COM/STORE'') test_world
     = (JSON StatusOK (AppStoreRegisterOK ''appstore is already registered''), test_world)
   \<and> length (AppStoreManagement_AppStoreList test_service
                (snd (RegisterAppStore test_service (Some ''HTTP://EXAMPLE.COM/STORE'')
                        test_world))) = 1"
proof -
  let ?empty = "test_world\<lparr>world_stores := []\<rparr>"
  have new: "\<not> registered test_service ?empty ''http://Example.com/store''"
    by (simp add: test_service_simps)
  have accepted: "AppStoreManagement_RegisterAppStore test_service ''http://Example.com/store''
      ?empty = (None, test_world)"
    by (simp add: test_service_def test_world_def)
  have held: "registered test_service test_world ''http://Example.com/store''"
    by (simp add: test_service_simps test_world_simps)
  have same: "strings_ToLower test_service ''HTTP://EXAMPLE.COM/STORE''
      = strings_ToLower test_service ''http://Example.com/store''"
    by (simp add: test_service_simps lower_store_url)
  have first: "RegisterAppStore test_service (Some ''http://Example.com/store'') ?empty
     = (JSON StatusOK
          (AppStoreRegisterOK
             (''trying to register app store asynchronously - see ''
                @ logFilepath test_service @ '' for any errors.'')), test_world)"
    using new accepted by (intro RegisterAppStore_new) simp_all
  have "RegisterAppStore test_service (Some ''HTTP://EXAMPLE.COM/STORE'') test_world
      = (JSON StatusOK (AppStoreRegisterOK ''appstore is already registered''), test_world)
    \<and> length (AppStoreManagement_AppStoreList test_service
                (snd (RegisterAppStore test_service (Some ''HTTP://EXAMPLE.COM/STORE'')
                        test_world)))
        = length (AppStoreManagement_AppStoreList test_service test_world)"
    using RegisterAppStore_already_registered
      [of "''http://Example.com/store''" test_service ?empty "''HTTP://EXAMPLE.COM/STORE''"
        test_world] new accepted held same
    by simp
  with first show ?thesis
    by (simp add: test_service_simps test_world_simps)
qed

text \<open>
  C9. One compose app that the store returns. When the Accept header equals the YAML media
  type and the app serializes, the response is the serialization itself, as a plain body
  with status 200. With any other Accept header (or none, which reads as the empty
  string), when the store info projection succeeds, the response is a JSON body with the
  warning that names the YAML media type, the store info and the compose app.
\<close>

theorem ComposeApp_representation:
  assumes "V2AppStore_ComposeApp svc ident w = Inr (Some composeApp)"
  shows "(accept = MIMEApplicationYAML svc \<longrightarrow>
            (\<forall>yaml. yaml_Marshal svc composeApp = Inr yaml \<longrightarrow>
               ComposeApp svc ident accept w = String StatusOK yaml))
         \<and> (accept \<noteq> MIMEApplicationYAML svc \<longrightarrow>
              (\<forall>storeInfo. ComposeApp_StoreInfo svc composeApp False = Inr storeInfo \<longrightarrow>
                 ComposeApp svc ident accept w
                   = JSON StatusOK
                       (ComposeAppOK
                          (''!! JSON format is for debugging purpose only - use `Accept: ''
                             @ MIMEApplicationYAML svc
                             @ ''` HTTP header to get YAML instead !!'')
                          \<lparr>StoreInfo = storeInfo, Compose = composeApp\<rparr>)))"
  using assms by (simp add: ComposeApp_def)

theorem ComposeApp_representation_witness:
  "ComposeApp test_service ''x'' ''application/yaml'' test_world
     = String StatusOK ''x-casaos: official''
   \<and> ComposeApp test_service ''x'' [] test_world
     = JSON StatusOK
         (ComposeAppOK
            (''!! JSON format is for debugging purpose only - use `Accept: ''
               @ ''application/yaml'' @ ''` HTTP header to get YAML instead !!'')
            \<lparr>StoreInfo = \<lparr>Category = ''Media'', StoreAppID = Some ''x''\<rparr>,
             Compose = app_x\<rparr>)"
proof -
  have found: "V2AppStore_ComposeApp test_service ''x'' test_world = Inr (Some app_x)"
    by (simp add: test_service_def test_world_def)
  have yaml: "yaml_Marshal test_service app_x = Inr ''x-casaos: official''"
    by (simp add: test_service_def app_x_def)
  have info: "ComposeApp_StoreInfo test_service app_x False
                = Inr \<lparr>Category = ''Media'', StoreAppID = Some ''x''\<rparr>"
    by (simp add: test_service_StoreInfo app_x_def)
  show ?thesis
    using ComposeApp_representation [OF found, of "''application/yaml''"]
      ComposeApp_representation [OF found, of "[]"] yaml info
    by (simp add: test_service_simps)
qed

text \<open>
  C5, as the code has it: the category listing on the maps on which the handler does not
  panic (fewer than two categories, or every category named). The response has status 200. Its first element is
  the category All with font apps, description All apps and the sum of all counts, a
  category without count adding nothing; the counts are 64-bit words and their sum is
  taken in that arithmetic, so it is the sum of the counts as integers whenever that sum
  fits into 64 bits. Every element's ID is its position, so All has 0. The elements
  after All are the categories of the map, changed in their ID only, in ascending
  byte-wise order of their names. For a map of A with count 2 and B with count 3, in
  either iteration order, the result is All with count 5 and ID 0, A with ID 1, B with
  ID 2.
\<close>

theorem CategoryList_aggregation:
  assumes "AppStoreManagement_CategoryMap svc w = Inr categoryMap"
    and "length categoryMap < 2 \<or> (\<forall>category \<in> set (lo_Values categoryMap). Name category \<noteq> None)"
  shows "\<exists>result.
           CategoryList svc w = JSON StatusOK (CategoryListOK result)
           \<and> length result = Suc (length categoryMap)
           \<and> hd result
               = \<lparr>Name = Some ''All'', Font = Some ''apps'', Description = Some ''All apps'',
                  Count = Some (sum_list (map (\<lambda>c. case Count c of None \<Rightarrow> 0 | Some n \<Rightarrow> n)
                                         (lo_Values categoryMap))),
                  ID = Some 0\<rparr>
           \<and> (- (2 ^ 63) \<le> sum_list (map (\<lambda>c. case Count c of None \<Rightarrow> 0 | Some n \<Rightarrow> sint n)
                                       (lo_Values categoryMap)) \<longrightarrow>
                sum_list (map (\<lambda>c. case Count c of None \<Rightarrow> 0 | Some n \<Rightarrow> sint n)
                            (lo_Values categoryMap)) < 2 ^ 63 \<longrightarrow>
                (\<exists>n. Count (hd result) = Some n
                   \<and> sint n = sum_list (map (\<lambda>c. case Count c of None \<Rightarrow> 0 | Some n \<Rightarrow> sint n)
                                           (lo_Values categoryMap))))
           \<and> (\<forall>i < length result. ID (result ! i) = Some (int i))
           \<and> mset (map (\<lambda>c. c\<lparr>ID := None\<rparr>) (tl result))
               = mset (map (\<lambda>c. c\<lparr>ID := None\<rparr>) (lo_Values categoryMap))
           \<and> sorted_wrt name_le (tl result)
           \<and> (\<forall>a b ka kb.
                 (categoryMap = [(ka, a), (kb, b)] \<or> categoryMap = [(kb, b), (ka, a)]) \<longrightarrow>
                 Name a = Some ''A'' \<longrightarrow> Count a = Some 2 \<longrightarrow>
                 Name b = Some ''B'' \<longrightarrow> Count b = Some 3 \<longrightarrow>
                 result
                   = [\<lparr>Name = Some ''All'', Font = Some ''apps'',
                       Description = Some ''All apps'', Count = Some 5, ID = Some 0\<rparr>,
                      a\<lparr>ID := Some 1\<rparr>, b\<lparr>ID := Some 2\<rparr>])"
proof -
  let ?xs = "lo_Values categoryMap"
  let ?ys = "sort_Slice name_less ?xs"
  let ?all = "\<lparr>Name = Some ''All'', Font = Some ''apps'', Description = Some ''All apps'',
               Count = Some (sum_list (map (\<lambda>c. case Count c of None \<Rightarrow> 0 | Some n \<Rightarrow> n) ?xs)),
               ID = None\<rparr>"
  let ?number = "\<lambda>category i. category\<lparr>ID := Some (int i)\<rparr>"
  let ?result = "lo_Map (?all # ?ys) ?number"
  have run: "CategoryList svc w = JSON StatusOK (CategoryListOK ?result)"
    using assms by (rule CategoryList_sorts)
  have len: "length ?result = Suc (length categoryMap)"
    by (simp add: length_lo_Map length_sort_Slice lo_Values_def)
  have tail: "tl ?result = lo_Map ?ys (\<lambda>category i. category\<lparr>ID := Some (int (Suc i))\<rparr>)"
    by (simp add: lo_Map_Cons)
  have first: "hd ?result = ?all\<lparr>ID := Some 0\<rparr>"
    by (simp add: lo_Map_Cons)
  have total: "\<exists>n. Count (hd ?result) = Some n
        \<and> sint n = sum_list (map (\<lambda>c. case Count c of None \<Rightarrow> 0 | Some n \<Rightarrow> sint n) ?xs)"
    if "- (2 ^ 63) \<le> sum_list (map (\<lambda>c. case Count c of None \<Rightarrow> 0 | Some n \<Rightarrow> sint n) ?xs)"
      "sum_list (map (\<lambda>c. case Count c of None \<Rightarrow> 0 | Some n \<Rightarrow> sint n) ?xs) < 2 ^ 63"
    using sum_counts_exact [OF that] by (simp add: first)
  have ids: "\<forall>i < length ?result. ID (?result ! i) = Some (int i)"
    by (simp add: length_lo_Map nth_lo_Map)
  have same: "mset (map (\<lambda>c. c\<lparr>ID := None\<rparr>) (tl ?result))
                = mset (map (\<lambda>c. c\<lparr>ID := None\<rparr>) ?xs)"
    unfolding tail by (subst map_lo_Map_forget) (simp_all add: mset_sort_Slice)
  have "sorted_wrt name_le ?ys"
  proof (cases "length categoryMap < 2")
    case True
    then have "length ?ys < 2"
      by (simp add: length_sort_Slice lo_Values_def)
    then show ?thesis
      by (cases ?ys rule: list.exhaust) (auto simp: Suc_lessI)
  next
    case False
    with assms(2) show ?thesis
      by (intro sorted_sort_Slice_name) simp
  qed
  then have sorted: "sorted_wrt name_le (tl ?result)"
    unfolding tail by (rule sorted_wrt_lo_Map) (simp add: name_le_def)
  have example: "?result
      = [\<lparr>Name = Some ''All'', Font = Some ''apps'', Description = Some ''All apps'',
          Count = Some 5, ID = Some 0\<rparr>, a\<lparr>ID := Some 1\<rparr>, b\<lparr>ID := Some 2\<rparr>]"
    if "categoryMap = [(ka, a), (kb, b)] \<or> categoryMap = [(kb, b), (ka, a)]"
      and "Name a = Some ''A''" "Count a = Some 2" "Name b = Some ''B''" "Count b = Some 3"
    for a b ka kb
    using that
    by (auto simp: lo_Values_def sort_Slice_def name_less_def lo_Map_def)
  show ?thesis
    using run len first total ids same sorted example by (intro exI [of _ ?result]) simp
qed

theorem CategoryList_aggregation_witness:
  "CategoryList test_service test_world
     = JSON StatusOK
         (CategoryListOK
            [\<lparr>Name = Some ''All'', Font = Some ''apps'', Description = Some ''All apps'',
              Count = Some 5, ID = Some 0\<rparr>,
             category_A\<lparr>ID := Some 1\<rparr>, category_B\<lparr>ID := Some 2\<rparr>])"
proof -
  have fetched: "AppStoreManagement_CategoryMap test_service test_world
                   = Inr [(''B'', category_B), (''A'', category_A)]"
    by (simp add: test_service_simps test_world_simps)
  have named: "length [(''B'', category_B), (''A'', category_A)] < 2
      \<or> (\<forall>category \<in> set (lo_Values [(''B'', category_B), (''A'', category_A)]).
            Name category \<noteq> None)"
    by (simp add: lo_Values_def category_A_def category_B_def)
  from CategoryList_aggregation [OF fetched named] obtain result where
    run: "CategoryList test_service test_world = JSON StatusOK (CategoryListOK result)"
    and example: "\<And>a b ka kb.
        [(''B'', category_B), (''A'', category_A)] = [(ka, a), (kb, b)]
          \<or> [(''B'', category_B), (''A'', category_A)] = [(kb, b), (ka, a)] \<Longrightarrow>
        Name a = Some ''A'' \<Longrightarrow> Count a = Some 2 \<Longrightarrow>
        Name b = Some ''B'' \<Longrightarrow> Count b = Some 3 \<Longrightarrow>
        result
          = [\<lparr>Name = Some ''All'', Font = Some ''apps'', Description = Some ''All apps'',
              Count = Some 5, ID = Some 0\<rparr>, a\<lparr>ID := Some 1\<rparr>, b\<lparr>ID := Some 2\<rparr>]"
    by blast
  have "result
          = [\<lparr>Name = Some ''All'', Font = Some ''apps'', Description = Some ''All apps'',
              Count = Some 5, ID = Some 0\<rparr>,
             category_A\<lparr>ID := Some 1\<rparr>, category_B\<lparr>ID := Some 2\<rparr>]"
    by (rule example [of "''A''" category_A "''B''" category_B])
      (simp_all add: category_A_def category_B_def)
  with run show ?thesis
    by simp
qed

text \<open>
  C5 as stated fails on a map that holds a category without a name beside another
  category: the comparison of the sort dereferences the name, and the handler panics in
  place of answering.
\<close>

theorem CategoryList_unnamed_counterexample:
  "AppStoreManagement_CategoryMap test_service
     (test_world\<lparr>world_categories := Inr [(''A'', category_A), ([], category_unnamed)]\<rparr>)
     = Inr [(''A'', category_A), ([], category_unnamed)]
   \<and> Name category_unnamed = None
   \<and> CategoryList test_service
       (test_world\<lparr>world_categories := Inr [(''A'', category_A), ([], category_unnamed)]\<rparr>)
     = Panicked"
  by (simp add: CategoryList_def lo_Values_def test_service_simps category_unnamed_def)

end
